theory Spec2Isabelle
  imports Main
begin

section \<open>Strings\<close>

text \<open>
  A Python \<open>str\<close> is a sequence of Unicode code points. The texts to translate are in
  any script, so a string is a list of code points; \<open>py\<close> writes a literal of the source.
\<close>

type_synonym pystr = "nat list"

definition py :: "string \<Rightarrow> pystr" where
  "py s = map of_char s"

text \<open>
  \<open>str.isspace\<close> for one code point: the characters that \<open>str.strip()\<close> removes when it
  is called without an argument (tab to carriage return, the four separators
  U+001C..U+001F, space, NEL, no-break space, and the Unicode space separators).
\<close>

definition isspace :: "nat \<Rightarrow> bool" where
  "isspace c \<longleftrightarrow>
     (9 \<le> c \<and> c \<le> 13) \<or> (28 \<le> c \<and> c \<le> 32) \<or> c = 133 \<or> c = 160 \<or> c = 5760 \<or>
     (8192 \<le> c \<and> c \<le> 8202) \<or> c = 8232 \<or> c = 8233 \<or> c = 8239 \<or> c = 8287 \<or> c = 12288"

definition lstrip :: "pystr \<Rightarrow> pystr" where
  "lstrip s = dropWhile isspace s"

definition rstrip :: "pystr \<Rightarrow> pystr" where
  "rstrip s = rev (dropWhile isspace (rev s))"

definition strip :: "pystr \<Rightarrow> pystr" where
  "strip s = rstrip (lstrip s)"

text \<open>\<open>sub in s\<close> on two strings: \<open>sub\<close> occurs in \<open>s\<close> as a contiguous piece.\<close>

fun str_contains :: "pystr \<Rightarrow> pystr \<Rightarrow> bool" where
  "str_contains [] sub = (sub = [])"
| "str_contains (c # s) sub = (take (length sub) (c # s) = sub \<or> str_contains s sub)"

section \<open>Translation models\<close>

record TranslationRequest =
  request_text :: pystr
  source_lang :: pystr
  target_lang :: pystr

record TranslationResponse =
  translated_text :: pystr

text \<open>\<open>HTTPException(status_code=..., detail=...)\<close>, the failure the endpoint reports.\<close>

datatype HTTPException = HTTPException (exc_status_code: nat) (detail: pystr)

section \<open>Config\<close>

definition TRANSLATION_API_URL :: pystr where
  "TRANSLATION_API_URL = py ''http://localhost:5000/translate''"

text \<open>A \<open>dict\<close> is an association list with distinct keys, in insertion order.\<close>

definition SUPPORTED_LANGUAGES :: "(pystr \<times> pystr) list" where
  "SUPPORTED_LANGUAGES =
    [(py ''en'', py ''English''),
     (py ''es'', py ''Spanish''),
     (py ''fr'', py ''French''),
     (py ''de'', py ''German''),
     (py ''it'', py ''Italian''),
     (py ''pt'', py ''Portuguese''),
     (py ''ru'', py ''Russian''),
     (py ''zh'', py ''Chinese''),
     (py ''ar'', py ''Arabic''),
     (py ''tr'', py ''Turkish''),
     (py ''ja'', py ''Japanese''),
     (py ''ko'', py ''Korean''),
     (py ''hi'', py ''Hindi'')]"

text \<open>\<open>k in d\<close> and \<open>d[k] = v\<close> on a \<open>dict\<close>; \<open>map_of d k\<close> reads \<open>d[k]\<close>.\<close>

definition dict_contains :: "('k \<times> 'v) list \<Rightarrow> 'k \<Rightarrow> bool" where
  "dict_contains d k = (map_of d k \<noteq> None)"

fun dict_set :: "('k \<times> 'v) list \<Rightarrow> 'k \<Rightarrow> 'v \<Rightarrow> ('k \<times> 'v) list" where
  "dict_set [] k v = [(k, v)]"
| "dict_set ((k', v') # d) k v = (if k' = k then (k, v) # d else (k', v') # dict_set d k v)"

section \<open>The backend and the libraries\<close>

text \<open>
  Parsed JSON, as \<open>response.json()\<close> returns it. A number keeps its literal: the
  endpoint never looks into one. An object is the \<open>dict\<close> the parser built.
\<close>

datatype json =
    JNull
  | JBool bool
  | JNumber pystr
  | JString pystr
  | JArray "json list"
  | JObject "(pystr \<times> json) list"

text \<open>
  The exceptions that can reach the handler \<open>except Exception\<close>: the \<open>HTTPException\<close> the
  endpoint raises itself, the \<open>TypeError\<close> of \<open>in\<close> and of indexing on a value that does
  not support them, the \<open>KeyError\<close> of a missing key, the validation error of the
  response model, and whatever the HTTP client raises while sending or parsing (named by
  a number).
\<close>

datatype exn =
    RaisedHTTPException HTTPException
  | TypeError_in json
  | TypeError_index json
  | KeyError pystr
  | ValidationError json
  | ClientError nat

record Response =
  status_code :: nat
  response_text :: pystr
  response_json :: "exn + json"

text \<open>What is raised out of the \<open>try\<close> block: \<open>httpx.HTTPStatusError\<close> or another exception.\<close>

datatype raised = HTTPStatusError Response | Exception exn

record http_request =
  http_method :: pystr
  url :: pystr
  form_data :: "(pystr \<times> pystr) list"
  headers :: "(pystr \<times> pystr) list"

text \<open>
  What the endpoint runs against: the backend behind \<open>client.post\<close> (a response, or an
  exception of the client), \<open>str(e)\<close> of an exception, and what the response model makes
  of a \<open>translated_text\<close> that is not a string (a string to use instead, or none: both
  are fixed by the installed library versions, not by this program).
\<close>

record environment =
  post :: "http_request \<Rightarrow> exn + Response"
  exc_str :: "exn \<Rightarrow> pystr"
  coerce_str :: "json \<Rightarrow> pystr option"

text \<open>The outbound requests sent so far, oldest first.\<close>

type_synonym world = "http_request list"

definition client_post :: "environment \<Rightarrow> http_request \<Rightarrow> world \<Rightarrow> (exn + Response) \<times> world" where
  "client_post env rq w = (post env rq, w @ [rq])"

text \<open>\<open>Response.is_success\<close>: \<open>raise_for_status()\<close> raises exactly when it is false.\<close>

definition is_success :: "Response \<Rightarrow> bool" where
  "is_success r \<longleftrightarrow> 200 \<le> status_code r \<and> status_code r \<le> 299"

text \<open>\<open>key in data\<close> and \<open>data[key]\<close> for a string \<open>key\<close> and parsed JSON \<open>data\<close>.\<close>

fun json_contains :: "json \<Rightarrow> pystr \<Rightarrow> exn + bool" where
  "json_contains (JObject d) key = Inr (dict_contains d key)"
| "json_contains (JArray xs) key = Inr (List.member xs (JString key))"
| "json_contains (JString s) key = Inr (str_contains s key)"
| "json_contains v key = Inl (TypeError_in v)"

fun json_getitem :: "json \<Rightarrow> pystr \<Rightarrow> exn + json" where
  "json_getitem (JObject d) key =
     (case map_of d key of Some v \<Rightarrow> Inr v | None \<Rightarrow> Inl (KeyError key))"
| "json_getitem v key = Inl (TypeError_index v)"

text \<open>\<open>TranslationResponse(translated_text=v)\<close>.\<close>

fun new_TranslationResponse :: "environment \<Rightarrow> json \<Rightarrow> exn + TranslationResponse" where
  "new_TranslationResponse env (JString s) = Inr \<lparr>translated_text = s\<rparr>"
| "new_TranslationResponse env v =
     (case coerce_str env v of
        Some s \<Rightarrow> Inr \<lparr>translated_text = s\<rparr>
      | None \<Rightarrow> Inl (ValidationError v))"

section \<open>The endpoint\<close>

definition payload :: "TranslationRequest \<Rightarrow> (pystr \<times> pystr) list" where
  "payload request =
    [(py ''q'', request_text request),
     (py ''source'', source_lang request),
     (py ''target'', target_lang request),
     (py ''format'', py ''text'')]"

definition outbound :: "TranslationRequest \<Rightarrow> http_request" where
  "outbound request =
    \<lparr>http_method = py ''POST'',
     url = TRANSLATION_API_URL,
     form_data = payload request,
     headers = [(py ''Content-Type'', py ''application/x-www-form-urlencoded'')]\<rparr>"

text \<open>The lines of the \<open>try\<close> block after the response has arrived.\<close>

definition read_response :: "environment \<Rightarrow> Response \<Rightarrow> raised + TranslationResponse" where
  "read_response env response =
    (if \<not> is_success response then Inl (HTTPStatusError response)
     else case response_json response of
       Inl e \<Rightarrow> Inl (Exception e)
     | Inr data \<Rightarrow>
        (case json_contains data (py ''translatedText'') of
           Inl e \<Rightarrow> Inl (Exception e)
         | Inr False \<Rightarrow>
             Inl (Exception (RaisedHTTPException
               (HTTPException 500 (py ''Unexpected API response format.''))))
         | Inr True \<Rightarrow>
            (case json_getitem data (py ''translatedText'') of
               Inl e \<Rightarrow> Inl (Exception e)
             | Inr v \<Rightarrow>
                (case new_TranslationResponse env v of
                   Inl e \<Rightarrow> Inl (Exception e)
                 | Inr r \<Rightarrow> Inr r))))"

definition try_block ::
    "environment \<Rightarrow> TranslationRequest \<Rightarrow> world \<Rightarrow> (raised + TranslationResponse) \<times> world" where
  "try_block env request w =
    (case client_post env (outbound request) w of
       (Inl e, w') \<Rightarrow> (Inl (Exception e), w')
     | (Inr response, w') \<Rightarrow> (read_response env response, w'))"

definition translate_text ::
    "environment \<Rightarrow> TranslationRequest \<Rightarrow> world \<Rightarrow> (HTTPException + TranslationResponse) \<times> world" where
  "translate_text env request w =
    (if strip (request_text request) = [] then
       (Inl (HTTPException 400 (py ''Text is required.'')), w)
     else if \<not> dict_contains SUPPORTED_LANGUAGES (source_lang request) then
       (Inl (HTTPException 400 (py ''Unsupported source language: '' @ source_lang request)), w)
     else if \<not> dict_contains SUPPORTED_LANGUAGES (target_lang request) then
       (Inl (HTTPException 400 (py ''Unsupported target language: '' @ target_lang request)), w)
     else
       (case try_block env request w of
          (Inr r, w') \<Rightarrow> (Inr r, w')
        | (Inl (HTTPStatusError response), w') \<Rightarrow>
            (Inl (HTTPException 500 (py ''Translation service error: '' @ response_text response)), w')
        | (Inl (Exception e), w') \<Rightarrow>
            (Inl (HTTPException 500 (py ''Internal server error: '' @ exc_str env e)), w')))"

section \<open>The user interface\<close>

text \<open>\<open>{v: k for k, v in SUPPORTED_LANGUAGES.items()}\<close>: one assignment per item, in order.\<close>

definition inv_langs :: "(pystr \<times> pystr) list" where
  "inv_langs = foldl (\<lambda>d (k, v). dict_set d v k) [] SUPPORTED_LANGUAGES"

section \<open>Sample requests and backends\<close>

definition hello_request :: TranslationRequest where
  "hello_request = \<lparr>request_text = py ''Hello'', source_lang = py ''en'', target_lang = py ''es''\<rparr>"

definition hola_response :: Response where
  \<open>hola_response =
    \<lparr>status_code = 200,
     response_text = py ''{"translatedText": "Hola"}'',
     response_json = Inr (JObject [(py ''translatedText'', JString (py ''Hola''))])\<rparr>\<close>

definition empty_object_response :: Response where
  "empty_object_response =
    \<lparr>status_code = 200, response_text = py ''{}'', response_json = Inr (JObject [])\<rparr>"

text \<open>A 503 whose body is not JSON, so that \<open>response.json()\<close> would raise.\<close>

definition unavailable_response :: Response where
  "unavailable_response =
    \<lparr>status_code = 503,
     response_text = py ''Service Unavailable'',
     response_json = Inl (ClientError 0)\<rparr>"

text \<open>A backend that gives every request the same response.\<close>

definition answering :: "Response \<Rightarrow> environment" where
  "answering r = \<lparr>post = (\<lambda>rq. Inr r), exc_str = (\<lambda>e. []), coerce_str = (\<lambda>v. None)\<rparr>"

section \<open>Properties\<close>

subsection \<open>Trimming\<close>

lemma dropWhile_all: "(\<forall>x\<in>set (dropWhile P xs). P x) \<longleftrightarrow> (\<forall>x\<in>set xs. P x)"
  by (induction xs) auto

lemma strip_empty_iff: "strip s = [] \<longleftrightarrow> list_all isspace s"
  by (simp add: strip_def lstrip_def rstrip_def dropWhile_all list_all_iff)

subsection \<open>The language table\<close>

lemma supported_codes:
  "map fst SUPPORTED_LANGUAGES =
     map py [''en'', ''es'', ''fr'', ''de'', ''it'', ''pt'', ''ru'', ''zh'', ''ar'', ''tr'',
             ''ja'', ''ko'', ''hi'']"
  by (simp add: SUPPORTED_LANGUAGES_def)

lemma dict_contains_iff: "dict_contains d k \<longleftrightarrow> k \<in> set (map fst d)"
  by (simp add: dict_contains_def map_of_eq_None_iff)

lemma supported_iff:
  "dict_contains SUPPORTED_LANGUAGES c \<longleftrightarrow>
     c \<in> set (map py [''en'', ''es'', ''fr'', ''de'', ''it'', ''pt'', ''ru'', ''zh'', ''ar'',
                        ''tr'', ''ja'', ''ko'', ''hi''])"
  unfolding dict_contains_iff supported_codes ..

lemma en_supported: "dict_contains SUPPORTED_LANGUAGES (py ''en'')"
  by (simp add: dict_contains_def SUPPORTED_LANGUAGES_def py_def)

lemma es_supported: "dict_contains SUPPORTED_LANGUAGES (py ''es'')"
  by (simp add: dict_contains_def SUPPORTED_LANGUAGES_def py_def)

lemma xx_unsupported: "\<not> dict_contains SUPPORTED_LANGUAGES (py ''xx'')"
  by (simp add: dict_contains_def SUPPORTED_LANGUAGES_def py_def)

subsection \<open>The endpoint on a request that passes the three checks\<close>

lemma valid_world:
  assumes "strip (request_text request) \<noteq> []"
    and "dict_contains SUPPORTED_LANGUAGES (source_lang request)"
    and "dict_contains SUPPORTED_LANGUAGES (target_lang request)"
  shows "snd (translate_text env request w) = w @ [outbound request]"
  using assms
  by (simp add: translate_text_def try_block_def client_post_def
      split: sum.split raised.split)

lemma valid_result:
  assumes "strip (request_text request) \<noteq> []"
    and "dict_contains SUPPORTED_LANGUAGES (source_lang request)"
    and "dict_contains SUPPORTED_LANGUAGES (target_lang request)"
    and "post env (outbound request) = Inr response"
  shows "fst (translate_text env request w) =
    (case read_response env response of
       Inr r \<Rightarrow> Inr r
     | Inl (HTTPStatusError rs) \<Rightarrow>
         Inl (HTTPException 500 (py ''Translation service error: '' @ response_text rs))
     | Inl (Exception e) \<Rightarrow>
         Inl (HTTPException 500 (py ''Internal server error: '' @ exc_str env e)))"
  using assms
  by (simp add: translate_text_def try_block_def client_post_def
      split: sum.split raised.split)

lemma valid_status:
  assumes "strip (request_text request) \<noteq> []"
    and "dict_contains SUPPORTED_LANGUAGES (source_lang request)"
    and "dict_contains SUPPORTED_LANGUAGES (target_lang request)"
  shows "fst (translate_text env request w) \<noteq> Inl (HTTPException 400 d)"
  using assms
  by (simp add: translate_text_def try_block_def client_post_def
      split: sum.split raised.split prod.split)

lemma hello_stripped: "strip (py ''Hello'') \<noteq> []"
  by (simp add: strip_def lstrip_def rstrip_def isspace_def py_def)

lemma rejected_iff:
  "(\<exists>d. fst (translate_text env request w) = Inl (HTTPException 400 d)) \<longleftrightarrow>
     strip (request_text request) = [] \<or>
     \<not> dict_contains SUPPORTED_LANGUAGES (source_lang request) \<or>
     \<not> dict_contains SUPPORTED_LANGUAGES (target_lang request)"
  using valid_status [of request env w]
  by (auto simp add: translate_text_def)

lemma missing_field_result:
  assumes "strip (request_text request) \<noteq> []"
    and "dict_contains SUPPORTED_LANGUAGES (source_lang request)"
    and "dict_contains SUPPORTED_LANGUAGES (target_lang request)"
    and "post env (outbound request) = Inr response"
    and "is_success response"
    and "response_json response = Inr (JObject members)"
    and "\<not> dict_contains members (py ''translatedText'')"
  shows "fst (translate_text env request w) =
    Inl (HTTPException 500 (py ''Internal server error: '' @
      exc_str env (RaisedHTTPException (HTTPException 500 (py ''Unexpected API response format.'')))))"
proof -
  have "read_response env response = Inl (Exception (RaisedHTTPException
      (HTTPException 500 (py ''Unexpected API response format.''))))"
    using assms(5-7) by (simp add: read_response_def)
  then show ?thesis
    using valid_result [OF assms(1-4)] by simp
qed

subsection \<open>The inverted table\<close>

lemma inv_langs_inverts:
  "list_all (\<lambda>(k, v). map_of inv_langs v = Some k) SUPPORTED_LANGUAGES"
  by (simp add: SUPPORTED_LANGUAGES_def inv_langs_def py_def)

subsection \<open>Claims\<close>

text \<open>
  C1: the request Hello, en, es, sent to a backend that answers it with status 200 and
  the JSON object whose field translatedText is Hola, succeeds, and the translated_text
  of the result is Hola.
\<close>

theorem C1_hello_gives_hola:
  assumes "post env (outbound hello_request) = Inr response"
    and "status_code response = 200"
    and "response_json response = Inr (JObject [(py ''translatedText'', JString (py ''Hola''))])"
  shows "fst (translate_text env hello_request w) = Inr \<lparr>translated_text = py ''Hola''\<rparr>"
proof -
  have valid: "strip (request_text hello_request) \<noteq> []"
    "dict_contains SUPPORTED_LANGUAGES (source_lang hello_request)"
    "dict_contains SUPPORTED_LANGUAGES (target_lang hello_request)"
    by (simp_all add: hello_request_def hello_stripped en_supported es_supported)
  have "read_response env response = Inr \<lparr>translated_text = py ''Hola''\<rparr>"
    using assms(2,3) by (simp add: read_response_def is_success_def dict_contains_def)
  then show ?thesis
    using valid_result [OF valid assms(1)] by simp
qed

theorem C1_hello_gives_hola_witness:
  "post (answering hola_response) (outbound hello_request) = Inr hola_response \<and>
   status_code hola_response = 200 \<and>
   response_json hola_response = Inr (JObject [(py ''translatedText'', JString (py ''Hola''))]) \<and>
   fst (translate_text (answering hola_response) hello_request []) =
     Inr \<lparr>translated_text = py ''Hola''\<rparr>"
proof -
  have 1: "post (answering hola_response) (outbound hello_request) = Inr hola_response"
    by (simp add: answering_def)
  have 2: "status_code hola_response = 200"
    by (simp add: hola_response_def)
  have 3: "response_json hola_response =
      Inr (JObject [(py ''translatedText'', JString (py ''Hola''))])"
    by (simp add: hola_response_def)
  show ?thesis
    using 1 2 3 C1_hello_gives_hola [OF 1 2 3, of "[]"] by simp
qed

text \<open>
  C2, with the detail as the code words it: when the text is empty or holds only whitespace characters, the
  endpoint fails with status 400 and the detail \<open>Text is required.\<close>, whatever the two
  language codes are, and sends nothing; the text is checked first.
\<close>

theorem C2_blank_text_rejected:
  assumes "list_all isspace text"
  shows "translate_text env
           \<lparr>request_text = text, source_lang = src, target_lang = tgt\<rparr> w =
         (Inl (HTTPException 400 (py ''Text is required.'')), w)"
  using assms by (simp add: translate_text_def strip_empty_iff)

theorem C2_blank_text_rejected_witness:
  "list_all isspace [32, 9, 12288] \<and>
   translate_text (answering hola_response)
     \<lparr>request_text = [32, 9, 12288], source_lang = py ''xx'', target_lang = py ''yy''\<rparr> [] =
   (Inl (HTTPException 400 (py ''Text is required.'')), [])"
proof -
  have h: "list_all isspace [32, 9, 12288]"
    by (simp add: isspace_def)
  show ?thesis
    using h C2_blank_text_rejected [OF h, of "answering hola_response" "py ''xx''" "py ''yy''" "[]"]
    by simp
qed

text \<open>
  C2, as the specification words it: the detail is \<open>Text is required.\<close>, which is not
  the string \<open>text is required\<close>.
\<close>

theorem C2_message_counterexample:
  "fst (translate_text (answering hola_response)
     \<lparr>request_text = [], source_lang = py ''en'', target_lang = py ''es''\<rparr> []) \<noteq>
   Inl (HTTPException 400 (py ''text is required''))"
  by (simp add: translate_text_def strip_def lstrip_def rstrip_def py_def)

text \<open>
  C3: let the text pass the emptiness check and let \<open>code\<close> be none of the 13 codes of the
  table. As the source language, \<open>code\<close> makes the endpoint fail with status 400 and a
  detail that ends with \<open>code\<close>, whatever the target is (the source is checked first);
  as the target language after a supported source, it makes the endpoint fail with status
  400 and a detail that ends with \<open>code\<close>; the two details differ.
\<close>

theorem C3_unsupported_code_rejected:
  assumes "code \<notin> set (map py [''en'', ''es'', ''fr'', ''de'', ''it'', ''pt'', ''ru'', ''zh'',
                                  ''ar'', ''tr'', ''ja'', ''ko'', ''hi''])"
    and "strip text \<noteq> []"
    and "dict_contains SUPPORTED_LANGUAGES good"
  shows "translate_text env
           \<lparr>request_text = text, source_lang = code, target_lang = other\<rparr> w =
         (Inl (HTTPException 400 (py ''Unsupported source language: '' @ code)), w) \<and>
         translate_text env
           \<lparr>request_text = text, source_lang = good, target_lang = code\<rparr> w =
         (Inl (HTTPException 400 (py ''Unsupported target language: '' @ code)), w) \<and>
         py ''Unsupported source language: '' @ code \<noteq>
         py ''Unsupported target language: '' @ code"
proof -
  have bad: "\<not> dict_contains SUPPORTED_LANGUAGES code"
    using assms(1) by (simp only: supported_iff not_False_eq_True)
  have "py ''Unsupported source language: '' @ code \<noteq>
        py ''Unsupported target language: '' @ code"
    by (simp add: py_def)
  then show ?thesis
    using bad assms(2,3) by (simp add: translate_text_def)
qed

theorem C3_unsupported_code_rejected_witness:
  "py ''xx'' \<notin> set (map py [''en'', ''es'', ''fr'', ''de'', ''it'', ''pt'', ''ru'', ''zh'',
                                ''ar'', ''tr'', ''ja'', ''ko'', ''hi'']) \<and>
   strip (py ''Hello'') \<noteq> [] \<and>
   dict_contains SUPPORTED_LANGUAGES (py ''en'') \<and>
   translate_text (answering hola_response)
     \<lparr>request_text = py ''Hello'', source_lang = py ''xx'', target_lang = py ''yy''\<rparr> [] =
   (Inl (HTTPException 400 (py ''Unsupported source language: xx'')), []) \<and>
   translate_text (answering hola_response)
     \<lparr>request_text = py ''Hello'', source_lang = py ''en'', target_lang = py ''xx''\<rparr> [] =
   (Inl (HTTPException 400 (py ''Unsupported target language: xx'')), [])"
proof -
  have 1: "py ''xx'' \<notin> set (map py [''en'', ''es'', ''fr'', ''de'', ''it'', ''pt'', ''ru'',
      ''zh'', ''ar'', ''tr'', ''ja'', ''ko'', ''hi''])"
    by (simp add: py_def)
  show ?thesis
    using 1 hello_stripped en_supported
      C3_unsupported_code_rejected [OF 1 hello_stripped en_supported,
        of "answering hola_response" "py ''yy''" "[]"]
    by (simp add: py_def)
qed

text \<open>
  C4: the request Hello, en, es, answered with status 200 and the JSON object \<open>{}\<close>,
  fails with status 500, and the detail is \<open>Internal server error: \<close> followed by
  \<open>str\<close> of the exception raised for the missing field: the handler \<open>except Exception\<close>
  catches that exception and wraps it, so the detail is not \<open>Unexpected API response format.\<close>
\<close>

theorem C4_missing_field_is_wrapped:
  "fst (translate_text
          \<lparr>post = (\<lambda>rq. Inr empty_object_response), exc_str = render, coerce_str = coerce\<rparr>
          hello_request w) =
   Inl (HTTPException 500 (py ''Internal server error: '' @
     render (RaisedHTTPException (HTTPException 500 (py ''Unexpected API response format.''))))) \<and>
   fst (translate_text
          \<lparr>post = (\<lambda>rq. Inr empty_object_response), exc_str = render, coerce_str = coerce\<rparr>
          hello_request w) \<noteq>
   Inl (HTTPException 500 (py ''Unexpected API response format.''))"
proof -
  let ?env = "\<lparr>post = (\<lambda>rq. Inr empty_object_response), exc_str = render, coerce_str = coerce\<rparr>"
  have valid: "strip (request_text hello_request) \<noteq> []"
    "dict_contains SUPPORTED_LANGUAGES (source_lang hello_request)"
    "dict_contains SUPPORTED_LANGUAGES (target_lang hello_request)"
    by (simp_all add: hello_request_def hello_stripped en_supported es_supported)
  have sent: "post ?env (outbound hello_request) = Inr empty_object_response"
    by simp
  have ok: "is_success empty_object_response"
    by (simp add: is_success_def empty_object_response_def)
  have obj: "response_json empty_object_response = Inr (JObject [])"
    by (simp add: empty_object_response_def)
  have none: "\<not> dict_contains [] (py ''translatedText'')"
    by (simp add: dict_contains_def)
  have "py ''Internal server error: '' @ s \<noteq> py ''Unexpected API response format.''" for s
    by (simp add: py_def)
  then show ?thesis
    using missing_field_result [OF valid sent ok obj none, of w] by simp
qed

text \<open>
  C5: when a request passes the three checks and the backend answers with a status
  outside 200..299, the endpoint fails with status 500, and the detail is
  \<open>Translation service error: \<close> followed by the text of the backend's response.
\<close>

theorem C5_upstream_error:
  assumes "strip (request_text request) \<noteq> []"
    and "dict_contains SUPPORTED_LANGUAGES (source_lang request)"
    and "dict_contains SUPPORTED_LANGUAGES (target_lang request)"
    and "post env (outbound request) = Inr response"
    and "\<not> is_success response"
  shows "fst (translate_text env request w) =
    Inl (HTTPException 500 (py ''Translation service error: '' @ response_text response))"
proof -
  have "read_response env response = Inl (HTTPStatusError response)"
    using assms(5) by (simp add: read_response_def)
  then show ?thesis
    using valid_result [OF assms(1-4)] by simp
qed

theorem C5_upstream_error_witness:
  "strip (request_text hello_request) \<noteq> [] \<and>
   dict_contains SUPPORTED_LANGUAGES (source_lang hello_request) \<and>
   dict_contains SUPPORTED_LANGUAGES (target_lang hello_request) \<and>
   post (answering unavailable_response) (outbound hello_request) = Inr unavailable_response \<and>
   \<not> is_success unavailable_response \<and>
   status_code unavailable_response = 503 \<and>
   fst (translate_text (answering unavailable_response) hello_request []) =
     Inl (HTTPException 500 (py ''Translation service error: Service Unavailable''))"
proof -
  have valid: "strip (request_text hello_request) \<noteq> []"
    "dict_contains SUPPORTED_LANGUAGES (source_lang hello_request)"
    "dict_contains SUPPORTED_LANGUAGES (target_lang hello_request)"
    by (simp_all add: hello_request_def hello_stripped en_supported es_supported)
  have sent: "post (answering unavailable_response) (outbound hello_request) =
      Inr unavailable_response"
    by (simp add: answering_def)
  have bad: "\<not> is_success unavailable_response"
    by (simp add: is_success_def unavailable_response_def)
  have body: "response_text unavailable_response = py ''Service Unavailable''"
    "status_code unavailable_response = 503"
    by (simp_all add: unavailable_response_def)
  show ?thesis
    using valid sent bad body C5_upstream_error [OF valid sent bad, of "[]"]
    by (simp add: py_def)
qed

text \<open>
  C6: a request whose source and target are the same supported code and whose text
  passes the emptiness check is not rejected with status 400; one request goes out, and
  its fields \<open>source\<close> and \<open>target\<close> both hold that code.
\<close>

theorem C6_same_language_forwarded:
  assumes "dict_contains SUPPORTED_LANGUAGES code"
    and "strip text \<noteq> []"
  shows "(\<forall>d. fst (translate_text env
              \<lparr>request_text = text, source_lang = code, target_lang = code\<rparr> w) \<noteq>
            Inl (HTTPException 400 d)) \<and>
         map form_data (drop (length w) (snd (translate_text env
              \<lparr>request_text = text, source_lang = code, target_lang = code\<rparr> w))) =
           [[(py ''q'', text), (py ''source'', code), (py ''target'', code),
             (py ''format'', py ''text'')]]"
proof -
  let ?r = "\<lparr>request_text = text, source_lang = code, target_lang = code\<rparr>"
  have valid: "strip (request_text ?r) \<noteq> []"
    "dict_contains SUPPORTED_LANGUAGES (source_lang ?r)"
    "dict_contains SUPPORTED_LANGUAGES (target_lang ?r)"
    using assms by simp_all
  show ?thesis
    using valid_status [OF valid] valid_world [OF valid]
    by (simp add: outbound_def payload_def)
qed

theorem C6_same_language_forwarded_witness:
  "dict_contains SUPPORTED_LANGUAGES (py ''en'') \<and>
   strip (py ''Hello'') \<noteq> [] \<and>
   (\<forall>d. fst (translate_text (answering hola_response)
              \<lparr>request_text = py ''Hello'', source_lang = py ''en'', target_lang = py ''en''\<rparr> []) \<noteq>
            Inl (HTTPException 400 d)) \<and>
   map form_data (snd (translate_text (answering hola_response)
              \<lparr>request_text = py ''Hello'', source_lang = py ''en'', target_lang = py ''en''\<rparr> [])) =
     [[(py ''q'', py ''Hello''), (py ''source'', py ''en''), (py ''target'', py ''en''),
       (py ''format'', py ''text'')]]"
  using en_supported hello_stripped
    C6_same_language_forwarded [OF en_supported hello_stripped, of "answering hola_response" "[]"]
  by simp

text \<open>
  C7: a request that passes the three checks adds exactly one request to those sent:
  a POST to \<open>TRANSLATION_API_URL\<close>, with the form fields \<open>q\<close> (the text), \<open>source\<close>,
  \<open>target\<close> and \<open>format = text\<close> and no other, and the header
  \<open>Content-Type: application/x-www-form-urlencoded\<close>. Nothing is sent a second time.
\<close>

theorem C7_one_outbound_post:
  assumes "strip (request_text request) \<noteq> []"
    and "dict_contains SUPPORTED_LANGUAGES (source_lang request)"
    and "dict_contains SUPPORTED_LANGUAGES (target_lang request)"
  shows "snd (translate_text env request w) =
    w @ [\<lparr>http_method = py ''POST'',
           url = TRANSLATION_API_URL,
           form_data = [(py ''q'', request_text request),
                        (py ''source'', source_lang request),
                        (py ''target'', target_lang request),
                        (py ''format'', py ''text'')],
           headers = [(py ''Content-Type'', py ''application/x-www-form-urlencoded'')]\<rparr>]"
  using valid_world [OF assms] by (simp add: outbound_def payload_def)

theorem C7_one_outbound_post_witness:
  "strip (request_text hello_request) \<noteq> [] \<and>
   dict_contains SUPPORTED_LANGUAGES (source_lang hello_request) \<and>
   dict_contains SUPPORTED_LANGUAGES (target_lang hello_request) \<and>
   snd (translate_text (answering hola_response) hello_request []) =
     [\<lparr>http_method = py ''POST'',
       url = py ''http://localhost:5000/translate'',
       form_data = [(py ''q'', py ''Hello''), (py ''source'', py ''en''),
                    (py ''target'', py ''es''), (py ''format'', py ''text'')],
       headers = [(py ''Content-Type'', py ''application/x-www-form-urlencoded'')]\<rparr>]"
proof -
  have valid: "strip (request_text hello_request) \<noteq> []"
    "dict_contains SUPPORTED_LANGUAGES (source_lang hello_request)"
    "dict_contains SUPPORTED_LANGUAGES (target_lang hello_request)"
    by (simp_all add: hello_request_def hello_stripped en_supported es_supported)
  show ?thesis
    using valid C7_one_outbound_post [OF valid, of "answering hola_response" "[]"]
    by (simp add: hello_request_def TRANSLATION_API_URL_def)
qed

text \<open>
  C8: the dictionary built by inverting the table sends the display name of every code
  of the table back to that code; the table has 13 entries and their display names are
  pairwise distinct.
\<close>

theorem C8_inverse_lookup:
  assumes "map_of SUPPORTED_LANGUAGES code = Some name"
  shows "map_of inv_langs name = Some code \<and>
         length SUPPORTED_LANGUAGES = 13 \<and>
         distinct (map snd SUPPORTED_LANGUAGES)"
proof -
  have "(code, name) \<in> set SUPPORTED_LANGUAGES"
    using assms by (rule map_of_SomeD)
  then have "map_of inv_langs name = Some code"
    using inv_langs_inverts by (auto simp add: list_all_iff)
  moreover have "length SUPPORTED_LANGUAGES = 13"
    by (simp add: SUPPORTED_LANGUAGES_def)
  moreover have "distinct (map snd SUPPORTED_LANGUAGES)"
    by (simp add: SUPPORTED_LANGUAGES_def py_def)
  ultimately show ?thesis by simp
qed

theorem C8_inverse_lookup_witness:
  "map_of SUPPORTED_LANGUAGES (py ''zh'') = Some (py ''Chinese'') \<and>
   map_of inv_langs (py ''Chinese'') = Some (py ''zh'')"
proof -
  have h: "map_of SUPPORTED_LANGUAGES (py ''zh'') = Some (py ''Chinese'')"
    by (simp add: SUPPORTED_LANGUAGES_def py_def)
  show ?thesis
    using h C8_inverse_lookup [OF h] by simp
qed

text \<open>
  C9: for a request that passes the three checks, the field \<open>q\<close> of the request sent to
  the backend is the text as the caller gave it, not the trimmed text.
\<close>

theorem C9_text_forwarded_untrimmed:
  assumes "strip (request_text request) \<noteq> []"
    and "dict_contains SUPPORTED_LANGUAGES (source_lang request)"
    and "dict_contains SUPPORTED_LANGUAGES (target_lang request)"
  shows "map_of (form_data (last (snd (translate_text env request w)))) (py ''q'') =
    Some (request_text request)"
  using valid_world [OF assms] by (simp add: outbound_def payload_def)

theorem C9_text_forwarded_untrimmed_witness:
  "strip (py ''  Hello  '') \<noteq> [] \<and>
   dict_contains SUPPORTED_LANGUAGES (py ''en'') \<and>
   dict_contains SUPPORTED_LANGUAGES (py ''es'') \<and>
   map_of (form_data (last (snd (translate_text (answering hola_response)
       \<lparr>request_text = py ''  Hello  '', source_lang = py ''en'', target_lang = py ''es''\<rparr> []))))
     (py ''q'') = Some (py ''  Hello  '') \<and>
   strip (py ''  Hello  '') \<noteq> py ''  Hello  ''"
proof -
  have s: "strip (py ''  Hello  '') = py ''Hello''"
    by (simp add: strip_def lstrip_def rstrip_def isspace_def py_def)
  have ne: "py ''Hello'' \<noteq> []"
    by (simp add: py_def)
  have valid: "strip (request_text
      \<lparr>request_text = py ''  Hello  '', source_lang = py ''en'', target_lang = py ''es''\<rparr>) \<noteq> []"
    "dict_contains SUPPORTED_LANGUAGES (source_lang
      \<lparr>request_text = py ''  Hello  '', source_lang = py ''en'', target_lang = py ''es''\<rparr>)"
    "dict_contains SUPPORTED_LANGUAGES (target_lang
      \<lparr>request_text = py ''  Hello  '', source_lang = py ''en'', target_lang = py ''es''\<rparr>)"
    using s ne en_supported es_supported by simp_all
  have d: "py ''Hello'' \<noteq> py ''  Hello  ''"
    by (simp add: py_def)
  show ?thesis
    using s d ne en_supported es_supported
      C9_text_forwarded_untrimmed [OF valid, of "answering hola_response" "[]"]
    by simp
qed

text \<open>
  C10: when the endpoint fails with status 400, the requests sent are the same as
  before the call: nothing went to the backend.
\<close>

theorem C10_rejected_sends_nothing:
  assumes "fst (translate_text env request w) = Inl e"
    and "exc_status_code e = 400"
  shows "snd (translate_text env request w) = w"
proof -
  have "\<exists>d. fst (translate_text env request w) = Inl (HTTPException 400 d)"
    using assms by (cases e) simp
  then have "strip (request_text request) = [] \<or>
      \<not> dict_contains SUPPORTED_LANGUAGES (source_lang request) \<or>
      \<not> dict_contains SUPPORTED_LANGUAGES (target_lang request)"
    by (simp only: rejected_iff)
  then show ?thesis
    by (auto simp add: translate_text_def)
qed

theorem C10_rejected_sends_nothing_witness:
  "fst (translate_text (answering hola_response)
     \<lparr>request_text = py ''Hello'', source_lang = py ''en'', target_lang = py ''xx''\<rparr> []) =
     Inl (HTTPException 400 (py ''Unsupported target language: xx'')) \<and>
   exc_status_code (HTTPException 400 (py ''Unsupported target language: xx'')) = 400 \<and>
   snd (translate_text (answering hola_response)
     \<lparr>request_text = py ''Hello'', source_lang = py ''en'', target_lang = py ''xx''\<rparr> []) = []"
proof -
  have 1: "fst (translate_text (answering hola_response)
     \<lparr>request_text = py ''Hello'', source_lang = py ''en'', target_lang = py ''xx''\<rparr> []) =
     Inl (HTTPException 400 (py ''Unsupported target language: xx''))"
    using hello_stripped en_supported xx_unsupported
    by (simp add: translate_text_def) (simp add: py_def)
  have 2: "exc_status_code (HTTPException 400 (py ''Unsupported target language: xx'')) = 400"
    by simp
  show ?thesis
    using 1 2 C10_rejected_sends_nothing [OF 1 2] by simp
qed

end
